theory Spec2Isabelle
  imports Complex_Main
begin

section \<open>Values received from the caller\<close>

text \<open>
  The \<open>params\<close> argument of a tool handler is a JSON value, or \<open>undefined\<close> when the call
  carries no arguments (\<open>None\<close> below). JavaScript numbers are modelled as real numbers:
  \<open>NaN\<close> and the infinities cannot arrive in JSON, and rounding of the doubles is left out.
  An object is the list of its own properties; a property is read with \<open>map_of\<close>.
\<close>

datatype json =
    JNull
  | JBool bool
  | JNum real
  | JStr string
  | JArr "json list"
  | JObj "(string \<times> json) list"

section \<open>The schema library\<close>

text \<open>
  \<open>common.ts\<close> builds its schemas with \<open>z.object\<close>, \<open>z.string\<close>, \<open>z.number\<close>, \<open>z.array\<close> and
  \<open>.optional()\<close> of the zod library and validates with \<open>schema.parse\<close>. The combinators below
  follow the library's documented behaviour: a schema reads the value found at a path
  (\<open>None\<close> when the property is absent) and returns the typed value or the issues it found.
  An object schema built by \<open>z.object\<close>, with no \<open>.strict()\<close> and no \<open>.passthrough()\<close>, reads
  the properties of its shape and leaves every other property of the input out of its
  result; the issues of all properties are collected.
\<close>

datatype seg = Key string | Idx nat

datatype issue = Invalid_type "seg list"

type_synonym 'a zod = "seg list \<Rightarrow> json option \<Rightarrow> issue list + 'a"

definition z_string :: "string zod" where
  "z_string p v = (case v of Some (JStr s) \<Rightarrow> Inr s | _ \<Rightarrow> Inl [Invalid_type p])"

definition z_number :: "real zod" where
  "z_number p v = (case v of Some (JNum n) \<Rightarrow> Inr n | _ \<Rightarrow> Inl [Invalid_type p])"

definition z_optional :: "'a zod \<Rightarrow> 'a option zod" where
  "z_optional s p v =
     (case v of
        None \<Rightarrow> Inr None
      | Some x \<Rightarrow> (case s p (Some x) of Inl is \<Rightarrow> Inl is | Inr a \<Rightarrow> Inr (Some a)))"

definition both :: "issue list + 'a \<Rightarrow> issue list + 'b \<Rightarrow> issue list + ('a \<times> 'b)" where
  "both r1 r2 =
     (case r1 of
        Inl is1 \<Rightarrow> (case r2 of Inl is2 \<Rightarrow> Inl (is1 @ is2) | Inr _ \<Rightarrow> Inl is1)
      | Inr a \<Rightarrow> (case r2 of Inl is2 \<Rightarrow> Inl is2 | Inr b \<Rightarrow> Inr (a, b)))"

fun array_items :: "'a zod \<Rightarrow> seg list \<Rightarrow> nat \<Rightarrow> json list \<Rightarrow> issue list + 'a list" where
  "array_items s p i [] = Inr []"
| "array_items s p i (x # xs) =
     (case both (s (p @ [Idx i]) (Some x)) (array_items s p (Suc i) xs) of
        Inl is \<Rightarrow> Inl is
      | Inr (a, as) \<Rightarrow> Inr (a # as))"

definition z_array :: "'a zod \<Rightarrow> 'a list zod" where
  "z_array s p v = (case v of Some (JArr xs) \<Rightarrow> array_items s p 0 xs | _ \<Rightarrow> Inl [Invalid_type p])"

definition property :: "(string \<times> json) list \<Rightarrow> seg list \<Rightarrow> string \<Rightarrow> 'a zod \<Rightarrow> issue list + 'a" where
  "property kvs p k s = s (p @ [Key k]) (map_of kvs k)"

definition z_object0 :: "unit zod" where
  "z_object0 p v = (case v of Some (JObj kvs) \<Rightarrow> Inr () | _ \<Rightarrow> Inl [Invalid_type p])"

definition z_object1 :: "string \<Rightarrow> 'a zod \<Rightarrow> 'a zod" where
  "z_object1 k s p v =
     (case v of Some (JObj kvs) \<Rightarrow> property kvs p k s | _ \<Rightarrow> Inl [Invalid_type p])"

definition z_object2 :: "string \<Rightarrow> 'a zod \<Rightarrow> string \<Rightarrow> 'b zod \<Rightarrow> ('a \<times> 'b) zod" where
  "z_object2 k1 s1 k2 s2 p v =
     (case v of
        Some (JObj kvs) \<Rightarrow> both (property kvs p k1 s1) (property kvs p k2 s2)
      | _ \<Rightarrow> Inl [Invalid_type p])"

section \<open>Errors, external calls and their trace\<close>

datatype error =
    InvalidParams "issue list"
  | NoActiveTab
  | ActionFailed
  | InstallFailed

text \<open>\<open>schema.parse(params)\<close>: the typed parameters, or the validation error thrown.\<close>

definition parse :: "'a zod \<Rightarrow> json option \<Rightarrow> error + 'a" where
  "parse s params = (case s [] params of Inl is \<Rightarrow> Inl (InvalidParams is) | Inr a \<Rightarrow> Inr a)"

type_synonym tab = nat

text \<open>The options object given to \<open>run\<close> and \<open>runAndWait\<close>; \<open>noClearFileChooser\<close> is optional.\<close>

record run_options =
  status :: string
  captureSnapshot :: bool
  noClearFileChooser :: "bool option"

text \<open>The options object given to \<open>page.pdf\<close>.\<close>

record pdf_options =
  path :: string
  printBackground :: bool
  width :: string
  height :: string

text \<open>The bodies of the callbacks of \<open>common.ts\<close>: each awaits one call on the tab.\<close>

datatype callback =
    TabNavigate string
  | PageGoBack
  | PageGoForward
  | KeyboardPress string
  | SubmitFileChooser "string list"

text \<open>
  Every call a handler makes on its collaborators (the context, the tab, the page, the
  timer) is an event; a handler returns its result together with the events in the order
  of the calls.
\<close>

datatype event =
    EnsureTab
  | CurrentTab
  | Run tab callback run_options
  | RunAndWait tab callback run_options
  | SetTimeout real
  | SetViewportSize tab real real
  | EvaluateScrollHeight tab
  | PagePdf tab pdf_options
  | ContextClose
  | ContextInstall

type_synonym snapshot = string

text \<open>
  A tool result: \<open>Text t\<close> is \<open>{content: [{type: 'text', text: t}]}\<close>, built by the handlers of
  \<open>common.ts\<close> themselves; \<open>Outcome st sn\<close> is the result that \<open>run\<close> and \<open>runAndWait\<close> build
  from the status and the snapshot.
\<close>

datatype response = Text string | Outcome string "snapshot option"

text \<open>
  What the collaborators answer during one invocation: the current tab of the context, the
  tab a creation would give, the error an external call throws (if any), the snapshot a
  capture gives, the two scroll heights of the page at a viewport size, the clock, the
  installed channel, and the functions of the runtime and of \<open>./utils\<close> that \<open>common.ts\<close>
  imports: the conversion of a number in a template literal, \<open>sanitizeForFilePath\<close> and
  \<open>path.join\<close>.
\<close>

record env =
  current :: "tab option"
  new_tab :: tab
  throws :: "event \<Rightarrow> error option"
  page_snapshot :: "snapshot option"
  body_scrollHeight :: "real \<Rightarrow> real \<Rightarrow> real"
  documentElement_scrollHeight :: "real \<Rightarrow> real \<Rightarrow> real"
  toISOString :: string
  channel :: string
  numberToString :: "real \<Rightarrow> string"
  sanitizeForFilePath :: "string \<Rightarrow> string"
  path_join :: "string \<Rightarrow> string \<Rightarrow> string"

type_synonym 'a io = "(error + 'a) \<times> event list"

definition pure :: "'a \<Rightarrow> 'a io" where
  "pure x = (Inr x, [])"

definition bind :: "'a io \<Rightarrow> ('a \<Rightarrow> 'b io) \<Rightarrow> 'b io" where
  "bind m f =
     (case m of
        (Inl e, tr) \<Rightarrow> (Inl e, tr)
      | (Inr x, tr) \<Rightarrow> (case f x of (r, tr') \<Rightarrow> (r, tr @ tr')))"

definition lift :: "error + 'a \<Rightarrow> 'a io" where
  "lift r = (r, [])"

text \<open>An external call: it is recorded, and returns \<open>x\<close> unless the collaborator throws.\<close>

definition call :: "env \<Rightarrow> event \<Rightarrow> 'a \<Rightarrow> 'a io" where
  "call e ev x = ((case throws e ev of Some err \<Rightarrow> Inl err | None \<Rightarrow> Inr x), [ev])"

text \<open>\<open>await new Promise(f => setTimeout(f, ms))\<close>: the timer is armed with \<open>ms\<close> milliseconds.\<close>

definition setTimeout :: "real \<Rightarrow> unit io" where
  "setTimeout ms = (Inr (), [SetTimeout ms])"

section \<open>The context and the tab\<close>

text \<open>
  Modelled from the spec: \<open>Context.ensureTab\<close> is not in \<open>common.ts\<close>. It returns the current
  tab if one exists, and otherwise creates a tab and returns it.
\<close>

definition ensureTab :: "env \<Rightarrow> tab io" where
  "ensureTab e = call e EnsureTab (case current e of Some t \<Rightarrow> t | None \<Rightarrow> new_tab e)"

text \<open>
  Modelled from the spec: \<open>Context.currentTab\<close> is not in \<open>common.ts\<close>. It returns the current
  tab and fails with \<open>NoActiveTab\<close> if none exists.
\<close>

definition currentTab :: "env \<Rightarrow> tab io" where
  "currentTab e =
     (case current e of Some t \<Rightarrow> (Inr t, [CurrentTab]) | None \<Rightarrow> (Inl NoActiveTab, [CurrentTab]))"

text \<open>
  Modelled from the spec: \<open>Tab.run\<close> and \<open>Tab.runAndWait\<close> are not in \<open>common.ts\<close>. Each
  executes the callback against the tab, lets a failure of the callback through, and
  composes the outcome from the \<open>status\<close> option and, when \<open>captureSnapshot\<close> is set, the
  snapshot it could capture.
\<close>

definition outcome :: "env \<Rightarrow> run_options \<Rightarrow> response" where
  "outcome e opts = Outcome (status opts) (if captureSnapshot opts then page_snapshot e else None)"

definition run :: "env \<Rightarrow> tab \<Rightarrow> callback \<Rightarrow> run_options \<Rightarrow> response io" where
  "run e t cb opts = call e (Run t cb opts) (outcome e opts)"

definition runAndWait :: "env \<Rightarrow> tab \<Rightarrow> callback \<Rightarrow> run_options \<Rightarrow> response io" where
  "runAndWait e t cb opts = call e (RunAndWait t cb opts) (outcome e opts)"



section \<open>The tools of \<open>common.ts\<close>\<close>

subsection \<open>\<open>browser_navigate\<close>\<close>

definition navigateSchema :: "string zod" where
  "navigateSchema = z_object1 ''url'' z_string"

definition navigate :: "bool \<Rightarrow> env \<Rightarrow> json option \<Rightarrow> response io" where
  "navigate captureSnapshot' e params =
     bind (lift (parse navigateSchema params)) (\<lambda>url.
     bind (ensureTab e) (\<lambda>currentTab'.
       run e currentTab' (TabNavigate url)
         \<lparr>status = ''Navigated to '' @ url,
          captureSnapshot = captureSnapshot',
          noClearFileChooser = None\<rparr>))"

subsection \<open>\<open>browser_go_back\<close> and \<open>browser_go_forward\<close>\<close>

text \<open>Both handlers take the context only: \<open>params\<close> is not read and no schema is parsed.\<close>

definition goBackSchema :: "unit zod" where
  "goBackSchema = z_object0"

definition goBack :: "bool \<Rightarrow> env \<Rightarrow> json option \<Rightarrow> response io" where
  "goBack snapshot' e params =
     bind (currentTab e) (\<lambda>t.
       runAndWait e t PageGoBack
         \<lparr>status = ''Navigated back'',
          captureSnapshot = snapshot',
          noClearFileChooser = None\<rparr>)"

definition goForwardSchema :: "unit zod" where
  "goForwardSchema = z_object0"

definition goForward :: "bool \<Rightarrow> env \<Rightarrow> json option \<Rightarrow> response io" where
  "goForward snapshot' e params =
     bind (currentTab e) (\<lambda>t.
       runAndWait e t PageGoForward
         \<lparr>status = ''Navigated forward'',
          captureSnapshot = snapshot',
          noClearFileChooser = None\<rparr>)"

subsection \<open>\<open>browser_wait\<close>\<close>

definition waitSchema :: "real zod" where
  "waitSchema = z_object1 ''time'' z_number"

definition wait :: "env \<Rightarrow> json option \<Rightarrow> response io" where
  "wait e params =
     bind (lift (parse waitSchema params)) (\<lambda>time.
     bind (setTimeout (min 10000 (time * 1000))) (\<lambda>_.
       pure (Text (''Waited for '' @ numberToString e time @ '' seconds''))))"

subsection \<open>\<open>browser_press_key\<close>\<close>

definition pressKeySchema :: "string zod" where
  "pressKeySchema = z_object1 ''key'' z_string"

definition pressKey :: "bool \<Rightarrow> env \<Rightarrow> json option \<Rightarrow> response io" where
  "pressKey captureSnapshot' e params =
     bind (lift (parse pressKeySchema params)) (\<lambda>key.
     bind (currentTab e) (\<lambda>t.
       runAndWait e t (KeyboardPress key)
         \<lparr>status = ''Pressed key '' @ key,
          captureSnapshot = captureSnapshot',
          noClearFileChooser = None\<rparr>))"

subsection \<open>\<open>browser_save_as_pdf\<close>\<close>

definition pdfSchema :: "(real option \<times> string option) zod" where
  "pdfSchema = z_object2 ''width'' (z_optional z_number) ''fileName'' (z_optional z_string)"

definition saveDir :: string where
  "saveDir = ''C:/Users/User/mcp_projects/shared''"

definition defaultFileName :: "env \<Rightarrow> string" where
  "defaultFileName e = ''page-'' @ toISOString e"

text \<open>\<open>a ?? b\<close> on an optional field.\<close>

definition nullish :: "'a option \<Rightarrow> 'a \<Rightarrow> 'a" where
  "nullish a b = (case a of Some x \<Rightarrow> x | None \<Rightarrow> b)"

text \<open>The script evaluated in the page, at the viewport just set.\<close>

definition scrollHeight :: "env \<Rightarrow> real \<Rightarrow> real \<Rightarrow> real" where
  "scrollHeight e w h = max (body_scrollHeight e w h) (documentElement_scrollHeight e w h)"

definition pdf :: "env \<Rightarrow> json option \<Rightarrow> response io" where
  "pdf e params =
     bind (lift (parse pdfSchema params)) (\<lambda>(width', fileName').
     bind (currentTab e) (\<lambda>t.
       let numericWidth = nullish width' 1400;
           fileName = nullish fileName' (defaultFileName e);
           filePath = path_join e saveDir (sanitizeForFilePath e (fileName @ ''.pdf''))
       in
     bind (call e (SetViewportSize t numericWidth 800) ()) (\<lambda>_.
     bind (call e (EvaluateScrollHeight t) (scrollHeight e numericWidth 800)) (\<lambda>scrollHeight'.
     bind (call e (PagePdf t
            \<lparr>path = filePath,
             printBackground = True,
             width = numberToString e numericWidth @ ''px'',
             height = numberToString e scrollHeight' @ ''px''\<rparr>) ()) (\<lambda>_.
       pure (Text (''Saved as '' @ filePath @ '' with width set to ''
                   @ numberToString e numericWidth @ ''px.'')))))))"

subsection \<open>\<open>browser_close\<close>\<close>

definition closeSchema :: "unit zod" where
  "closeSchema = z_object0"

definition close :: "env \<Rightarrow> json option \<Rightarrow> response io" where
  "close e params = bind (call e ContextClose ()) (\<lambda>_. pure (Text ''Page closed''))"

subsection \<open>\<open>browser_choose_file\<close>\<close>

definition chooseFileSchema :: "string list zod" where
  "chooseFileSchema = z_object1 ''paths'' (z_array z_string)"

text \<open>\<open>paths.join(', ')\<close>.\<close>

fun join :: "string \<Rightarrow> string list \<Rightarrow> string" where
  "join sep [] = ''''"
| "join sep [x] = x"
| "join sep (x # y # ys) = x @ sep @ join sep (y # ys)"

definition chooseFile :: "bool \<Rightarrow> env \<Rightarrow> json option \<Rightarrow> response io" where
  "chooseFile captureSnapshot' e params =
     bind (lift (parse chooseFileSchema params)) (\<lambda>paths.
     bind (currentTab e) (\<lambda>t.
       runAndWait e t (SubmitFileChooser paths)
         \<lparr>status = ''Chose files '' @ join '', '' paths,
          captureSnapshot = captureSnapshot',
          noClearFileChooser = Some True\<rparr>))"

subsection \<open>\<open>browser_install\<close>\<close>

definition install :: "env \<Rightarrow> json option \<Rightarrow> response io" where
  "install e params =
     bind (call e ContextInstall (channel e)) (\<lambda>channel'.
       pure (Text (''Browser '' @ channel' @ '' installed'')))"

subsection \<open>The catalogue\<close>

datatype tool =
    Navigate | GoBack | GoForward | Wait | PressKey | Pdf | Close | ChooseFile | Install

fun name :: "tool \<Rightarrow> string" where
  "name Navigate = ''browser_navigate''"
| "name GoBack = ''browser_go_back''"
| "name GoForward = ''browser_go_forward''"
| "name Wait = ''browser_wait''"
| "name PressKey = ''browser_press_key''"
| "name Pdf = ''browser_save_as_pdf''"
| "name Close = ''browser_close''"
| "name ChooseFile = ''browser_choose_file''"
| "name Install = ''browser_install''"

text \<open>The property names of the shape given to \<open>zodToJsonSchema\<close> for each tool.\<close>

fun inputSchema :: "tool \<Rightarrow> string list" where
  "inputSchema Navigate = [''url'']"
| "inputSchema GoBack = []"
| "inputSchema GoForward = []"
| "inputSchema Wait = [''time'']"
| "inputSchema PressKey = [''key'']"
| "inputSchema Pdf = [''width'', ''fileName'']"
| "inputSchema Close = []"
| "inputSchema ChooseFile = [''paths'']"
| "inputSchema Install = []"

text \<open>
  The handler of each tool; the flag is the \<open>captureSnapshot\<close> argument of the factories and
  is not used by the tools that are not factories.
\<close>

fun handle :: "tool \<Rightarrow> bool \<Rightarrow> env \<Rightarrow> json option \<Rightarrow> response io" where
  "handle Navigate cs e params = navigate cs e params"
| "handle GoBack cs e params = goBack cs e params"
| "handle GoForward cs e params = goForward cs e params"
| "handle Wait cs e params = wait e params"
| "handle PressKey cs e params = pressKey cs e params"
| "handle Pdf cs e params = pdf e params"
| "handle Close cs e params = close e params"
| "handle ChooseFile cs e params = chooseFile cs e params"
| "handle Install cs e params = install e params"

section \<open>An example environment\<close>

text \<open>
  A context with one open tab whose collaborators never throw, for the examples only; the
  theorems leave every field of the environment a parameter. Whole numbers are written in
  decimal, as a template literal writes them; no example reads the text of another number
  (this conversion would write its floor). The sanitizer is a stand-in that replaces \<open>:\<close>
  and \<open>/\<close> by \<open>-\<close>. The page is 2800000 square pixels of content, so its body is the
  taller the narrower the viewport.
\<close>

definition digit :: "nat \<Rightarrow> char" where
  "digit d = ''0123456789'' ! d"

function show_nat :: "nat \<Rightarrow> string" where
  "show_nat n = (if n < 10 then [digit n] else show_nat (n div 10) @ [digit (n mod 10)])"
  by pat_completeness auto
termination
  by (relation "measure id") auto

definition show_int :: "int \<Rightarrow> string" where
  "show_int i = (if i < 0 then CHR ''-'' # show_nat (nat (- i)) else show_nat (nat i))"

definition example_env :: env where
  "example_env =
     \<lparr>current = Some 0,
      new_tab = 1,
      throws = (\<lambda>_. None),
      page_snapshot = Some ''- document'',
      body_scrollHeight = (\<lambda>w h. 2800000 / w),
      documentElement_scrollHeight = (\<lambda>w h. h),
      toISOString = ''2025-01-01T00:00:00.000Z'',
      channel = ''chrome'',
      numberToString = (\<lambda>r. show_int \<lfloor>r\<rfloor>),
      sanitizeForFilePath = map (\<lambda>c. if c = CHR '':'' \<or> c = CHR ''/'' then CHR ''-'' else c),
      path_join = (\<lambda>a b. a @ ''/'' @ b)\<rparr>"

section \<open>What validation returns\<close>

lemmas handler_defs = bind_def lift_def pure_def call_def setTimeout_def
  ensureTab_def currentTab_def run_def runAndWait_def outcome_def

lemma parse_navigateSchema:
  "parse navigateSchema (Some (JObj kvs)) =
     (case map_of kvs ''url'' of
        Some (JStr u) \<Rightarrow> Inr u
      | _ \<Rightarrow> Inl (InvalidParams [Invalid_type [Key ''url'']]))"
  by (simp add: navigateSchema_def parse_def z_object1_def property_def z_string_def
      split: option.splits json.splits)

lemma parse_waitSchema:
  "parse waitSchema (Some (JObj kvs)) =
     (case map_of kvs ''time'' of
        Some (JNum t) \<Rightarrow> Inr t
      | _ \<Rightarrow> Inl (InvalidParams [Invalid_type [Key ''time'']]))"
  by (simp add: waitSchema_def parse_def z_object1_def property_def z_number_def
      split: option.splits json.splits)

lemma parse_pdfSchema:
  "map_of kvs ''width'' = map_option JNum w \<Longrightarrow> map_of kvs ''fileName'' = map_option JStr f \<Longrightarrow>
   parse pdfSchema (Some (JObj kvs)) = Inr (w, f)"
  by (cases w; cases f)
     (simp_all add: pdfSchema_def parse_def z_object2_def property_def z_optional_def
       z_number_def z_string_def both_def)



lemma parse_pressKeySchema:
  "parse pressKeySchema (Some (JObj kvs)) =
     (case map_of kvs ''key'' of
        Some (JStr k) \<Rightarrow> Inr k
      | _ \<Rightarrow> Inl (InvalidParams [Invalid_type [Key ''key'']]))"
  by (simp add: pressKeySchema_def parse_def z_object1_def property_def z_string_def
      split: option.splits json.splits)

lemma parse_object1_cong:
  "map_of kvs k = map_of kvs' k \<Longrightarrow>
   parse (z_object1 k s) (Some (JObj kvs)) = parse (z_object1 k s) (Some (JObj kvs'))"
  by (simp add: parse_def z_object1_def property_def)

lemma parse_object2_cong:
  "map_of kvs k1 = map_of kvs' k1 \<Longrightarrow> map_of kvs k2 = map_of kvs' k2 \<Longrightarrow>
   parse (z_object2 k1 s1 k2 s2) (Some (JObj kvs)) = parse (z_object2 k1 s1 k2 s2) (Some (JObj kvs'))"
  by (simp add: parse_def z_object2_def property_def)

lemma parse_pdfSchema_width:
  "parse pdfSchema (Some (JObj kvs)) = Inr (w, f) \<Longrightarrow>
   nullish w 1400 = (case map_of kvs ''width'' of Some (JNum x) \<Rightarrow> x | _ \<Rightarrow> 1400)"
  by (auto simp add: pdfSchema_def parse_def z_object2_def property_def z_optional_def
      z_number_def z_string_def both_def nullish_def split: option.splits json.splits sum.splits)

lemma pdf_trace:
  "snd (pdf e params) = [] \<or> snd (pdf e params) = [CurrentTab]
   \<or> (\<exists>t w f rest. parse pdfSchema params = Inr (w, f)
        \<and> snd (pdf e params) = CurrentTab # SetViewportSize t (nullish w 1400) 800 # rest
        \<and> (rest = [] \<or> rest = [EvaluateScrollHeight t]
            \<or> (\<exists>p pw. rest = [EvaluateScrollHeight t,
                  PagePdf t \<lparr>path = p, printBackground = True, width = pw,
                    height = numberToString e (scrollHeight e (nullish w 1400) 800) @ ''px''\<rparr>])))"
proof (cases "parse pdfSchema params")
  case (Inl err)
  then show ?thesis
    by (simp add: pdf_def handler_defs)
next
  case (Inr v)
  obtain w f where v: "v = (w, f)"
    by (cases v)
  show ?thesis
  proof (cases "current e")
    case None
    with Inr v show ?thesis
      by (simp add: pdf_def handler_defs)
  next
    case (Some t)
    show ?thesis
    proof (cases "throws e (SetViewportSize t (nullish w 1400) 800)")
      case a: (Some err)
      with Inr v Some show ?thesis
        by (simp add: pdf_def handler_defs)
    next
      case a: None
      show ?thesis
      proof (cases "throws e (EvaluateScrollHeight t)")
        case b: (Some err)
        with Inr v Some a show ?thesis
          by (simp add: pdf_def handler_defs)
      next
        case b: None
        with Inr v Some a show ?thesis
          by (simp add: pdf_def handler_defs Let_def split: option.splits)
      qed
    qed
  qed
qed

lemma pdf_resizes:
  assumes "map_of kvs ''width'' = map_option JNum w"
    and "map_of kvs ''fileName'' = map_option JStr f"
    and "current e = Some t"
  shows "\<exists>rest. snd (pdf e (Some (JObj kvs))) =
           CurrentTab # SetViewportSize t (case w of None \<Rightarrow> 1400 | Some x \<Rightarrow> x) 800 # rest
         \<and> (throws e (SetViewportSize t (case w of None \<Rightarrow> 1400 | Some x \<Rightarrow> x) 800) = None \<longrightarrow>
              (\<exists>rest'. rest = EvaluateScrollHeight t # rest'))"
proof -
  from assms(1,2) have p: "parse pdfSchema (Some (JObj kvs)) = Inr (w, f)"
    by (rule parse_pdfSchema)
  have n: "nullish w 1400 = (case w of None \<Rightarrow> 1400 | Some x \<Rightarrow> x)"
    by (simp add: nullish_def)
  show ?thesis
  proof (cases "throws e (SetViewportSize t (nullish w 1400) 800)")
    case (Some err)
    with p assms(3) show ?thesis
      by (simp add: pdf_def handler_defs n [symmetric])
  next
    case a: None
    show ?thesis
    proof (cases "throws e (EvaluateScrollHeight t)")
      case (Some err)
      with p assms(3) a show ?thesis
        by (simp add: pdf_def handler_defs n [symmetric])
    next
      case None
      with p assms(3) a show ?thesis
        by (simp add: pdf_def handler_defs Let_def n [symmetric] split: option.splits)
    qed
  qed
qed

section \<open>\<open>browser_wait\<close>\<close>

text \<open>
  The time schema is \<open>z.number()\<close> with no lower bound: a negative time passes
  validation, the handler succeeds, and the timer is armed with a negative number of
  milliseconds.
\<close>

theorem wait_negative_time_counterexample:
  "wait example_env (Some (JObj [(''time'', JNum (- 5))])) =
     (Inr (Text ''Waited for -5 seconds''), [SetTimeout (- 5000)])"
  by (simp add: wait_def waitSchema_def parse_def z_object1_def property_def z_number_def
      bind_def lift_def setTimeout_def pure_def example_env_def show_int_def digit_def)

text \<open>
  C1, as amended: validation accepts every number \<open>t\<close> as \<open>time\<close>, a negative one too, and the
  only call of the handler arms the timer with \<open>min(t, 10)\<close> seconds, that is
  \<open>1000 * min t 10\<close> milliseconds: never more than ten seconds, and non-negative exactly
  when \<open>t\<close> is. When \<open>time\<close> is absent or not a number the handler fails with \<open>InvalidParams\<close>
  and makes no call.
\<close>

theorem wait_delay:
  "snd (wait e (Some (JObj kvs))) =
     (case map_of kvs ''time'' of Some (JNum t) \<Rightarrow> [SetTimeout (1000 * min t 10)] | _ \<Rightarrow> [])
   \<and> (\<forall>t. map_of kvs ''time'' = Some (JNum t) \<longrightarrow>
        (\<exists>r. fst (wait e (Some (JObj kvs))) = Inr r)
        \<and> 1000 * min t 10 \<le> 10000
        \<and> (0 \<le> 1000 * min t 10) = (0 \<le> t))
   \<and> ((\<forall>t. map_of kvs ''time'' \<noteq> Some (JNum t)) \<longrightarrow>
        fst (wait e (Some (JObj kvs))) = Inl (InvalidParams [Invalid_type [Key ''time'']]))"
  by (auto simp add: wait_def parse_waitSchema handler_defs min_def
      split: option.splits json.splits)

text \<open>
  The three cases at concrete inputs: 15 seconds are cut to 10000 ms, half a second is
  500 ms, and the string \<open>"15"\<close> is rejected.
\<close>

theorem wait_delay_witness:
  "snd (wait example_env (Some (JObj [(''time'', JNum 15)]))) = [SetTimeout 10000]
   \<and> (\<exists>r. fst (wait example_env (Some (JObj [(''time'', JNum 15)]))) = Inr r)
   \<and> snd (wait example_env (Some (JObj [(''time'', JNum (1 / 2))]))) = [SetTimeout 500]
   \<and> fst (wait example_env (Some (JObj [(''time'', JStr ''15'')]))) =
       Inl (InvalidParams [Invalid_type [Key ''time'']])"
  using wait_delay [of example_env "[(''time'', JNum 15)]"]
    wait_delay [of example_env "[(''time'', JNum (1 / 2))]"]
    wait_delay [of example_env "[(''time'', JStr ''15'')]"]
  by simp

text \<open>
  C9: when \<open>time\<close> is the number \<open>t\<close>, the text of the response is \<open>Waited for t seconds\<close> with
  the requested \<open>t\<close> as the template literal writes it, while the timer is armed with
  \<open>1000 * t\<close> ms only up to \<open>t = 10\<close> and with 10000 ms beyond: for \<open>t = 15\<close> the text says 15
  seconds and the delay is 10 seconds.
\<close>

theorem wait_text_reports_requested_time:
  "map_of kvs ''time'' = Some (JNum t) \<Longrightarrow>
   wait e (Some (JObj kvs)) =
     (Inr (Text (''Waited for '' @ numberToString e t @ '' seconds'')),
      [SetTimeout (if t \<le> 10 then t * 1000 else 10000)])"
  by (simp add: wait_def parse_waitSchema handler_defs min_def)

theorem wait_text_reports_requested_time_witness:
  "map_of [(''time'', JNum 15)] ''time'' = Some (JNum 15)
   \<and> wait example_env (Some (JObj [(''time'', JNum 15)])) =
       (Inr (Text ''Waited for 15 seconds''), [SetTimeout 10000])"
  using wait_text_reports_requested_time [of "[(''time'', JNum 15)]" 15 example_env]
  by (simp add: example_env_def show_int_def digit_def)

section \<open>Fields outside the declared shape\<close>

text \<open>
  The schemas are plain \<open>z.object\<close> shapes and the handlers of \<open>browser_go_back\<close>,
  \<open>browser_go_forward\<close>, \<open>browser_close\<close> and \<open>browser_install\<close> never read \<open>params\<close>: a record
  with the undeclared field \<open>extra\<close> is accepted by \<open>browser_navigate\<close>, \<open>browser_wait\<close> and
  \<open>browser_go_back\<close>.
\<close>

theorem strict_shape_counterexample:
  "fst (handle Navigate False example_env
          (Some (JObj [(''url'', JStr ''https://example.com''), (''extra'', JBool True)])))
     = Inr (Outcome ''Navigated to https://example.com'' None)
   \<and> fst (handle Wait False example_env
          (Some (JObj [(''time'', JNum 2), (''extra'', JBool True)])))
     = Inr (Text ''Waited for 2 seconds'')
   \<and> fst (handle GoBack False example_env (Some (JObj [(''extra'', JBool True)])))
     = Inr (Outcome ''Navigated back'' None)"
  by (simp add: navigate_def wait_def goBack_def parse_navigateSchema parse_waitSchema
      handler_defs example_env_def show_int_def digit_def)

text \<open>
  C2, as amended: for every tool, the fields that its input shape does not declare are
  ignored. Two records that agree on the declared fields get the same result and the same
  calls, so an undeclared extra field never makes validation fail.
\<close>

theorem undeclared_fields_ignored:
  assumes same: "\<forall>k \<in> set (inputSchema tool). map_of kvs k = map_of kvs' k"
  shows "handle tool cs e (Some (JObj kvs)) = handle tool cs e (Some (JObj kvs'))"
proof (cases tool)
  case Navigate
  with same have "parse navigateSchema (Some (JObj kvs)) = parse navigateSchema (Some (JObj kvs'))"
    unfolding navigateSchema_def by (intro parse_object1_cong) simp
  with Navigate show ?thesis
    by (simp add: navigate_def)
next
  case Wait
  with same have "parse waitSchema (Some (JObj kvs)) = parse waitSchema (Some (JObj kvs'))"
    unfolding waitSchema_def by (intro parse_object1_cong) simp
  with Wait show ?thesis
    by (simp add: wait_def)
next
  case PressKey
  with same have "parse pressKeySchema (Some (JObj kvs)) = parse pressKeySchema (Some (JObj kvs'))"
    unfolding pressKeySchema_def by (intro parse_object1_cong) simp
  with PressKey show ?thesis
    by (simp add: pressKey_def)
next
  case Pdf
  with same have "parse pdfSchema (Some (JObj kvs)) = parse pdfSchema (Some (JObj kvs'))"
    unfolding pdfSchema_def by (intro parse_object2_cong) simp_all
  with Pdf show ?thesis
    by (simp add: pdf_def)
next
  case ChooseFile
  with same have "parse chooseFileSchema (Some (JObj kvs)) = parse chooseFileSchema (Some (JObj kvs'))"
    unfolding chooseFileSchema_def by (intro parse_object1_cong) simp
  with ChooseFile show ?thesis
    by (simp add: chooseFile_def)
qed (simp_all add: goBack_def goForward_def close_def install_def)

theorem undeclared_fields_ignored_witness:
  "inputSchema PressKey = [''key'']
   \<and> map_of [(''key'', JStr ''a''), (''extra'', JNull)] ''key'' = map_of [(''key'', JStr ''a'')] ''key''
   \<and> handle PressKey True example_env (Some (JObj [(''key'', JStr ''a''), (''extra'', JNull)]))
     = handle PressKey True example_env (Some (JObj [(''key'', JStr ''a'')]))
   \<and> fst (handle PressKey True example_env (Some (JObj [(''key'', JStr ''a'')])))
     = Inr (Outcome ''Pressed key a'' (Some ''- document''))"
proof -
  have h: "\<forall>k \<in> set (inputSchema PressKey).
      map_of [(''key'', JStr ''a''), (''extra'', JNull)] k = map_of [(''key'', JStr ''a'')] k"
    by simp
  have r: "fst (handle PressKey True example_env (Some (JObj [(''key'', JStr ''a'')])))
     = Inr (Outcome ''Pressed key a'' (Some ''- document''))"
    by (simp add: pressKey_def parse_pressKeySchema handler_defs example_env_def)
  from undeclared_fields_ignored [OF h, of True example_env] r show ?thesis
    by simp
qed

section \<open>\<open>browser_navigate\<close>\<close>

text \<open>
  The url schema is \<open>z.string()\<close> with no \<open>.url()\<close> check: the string \<open>not a url\<close> passes
  validation and is handed to \<open>tab.navigate\<close>.
\<close>

theorem navigate_implausible_url_counterexample:
  "navigate False example_env (Some (JObj [(''url'', JStr ''not a url'')])) =
     (Inr (Outcome ''Navigated to not a url'' None),
      [EnsureTab,
       Run 0 (TabNavigate ''not a url'')
         \<lparr>status = ''Navigated to not a url'', captureSnapshot = False,
          noClearFileChooser = None\<rparr>])"
  by (simp add: navigate_def parse_navigateSchema handler_defs example_env_def)

text \<open>
  C3, as amended: \<open>browser_navigate\<close> fails with \<open>InvalidParams\<close> at validation, before any
  call, exactly when the \<open>url\<close> field is absent or is not a string. Every string \<open>u\<close>, a
  plausible URL or not, passes validation: the handler goes on to \<open>ensureTab\<close> and, unless
  that throws, to \<open>run\<close> around \<open>tab.navigate(u)\<close> on the tab it got, with this very string.
\<close>

theorem navigate_validation:
  "(navigate cs e (Some (JObj kvs)) = (Inl (InvalidParams [Invalid_type [Key ''url'']]), []))
     = (\<forall>u. map_of kvs ''url'' \<noteq> Some (JStr u))
   \<and> (\<forall>u. map_of kvs ''url'' = Some (JStr u) \<longrightarrow>
        (\<exists>r rest. navigate cs e (Some (JObj kvs)) = (r, EnsureTab # rest)))
   \<and> (\<forall>u. map_of kvs ''url'' = Some (JStr u) \<and> throws e EnsureTab = None \<longrightarrow>
        snd (navigate cs e (Some (JObj kvs))) =
          [EnsureTab,
           Run (case current e of Some t \<Rightarrow> t | None \<Rightarrow> new_tab e) (TabNavigate u)
             \<lparr>status = ''Navigated to '' @ u, captureSnapshot = cs, noClearFileChooser = None\<rparr>])"
  by (auto simp add: navigate_def parse_navigateSchema handler_defs
      split: option.splits json.splits)

theorem navigate_validation_witness:
  "navigate True example_env (Some (JObj [(''url'', JNum 5)])) =
     (Inl (InvalidParams [Invalid_type [Key ''url'']]), [])
   \<and> navigate True example_env (Some (JObj [])) =
     (Inl (InvalidParams [Invalid_type [Key ''url'']]), [])
   \<and> throws example_env EnsureTab = None
   \<and> snd (navigate True example_env (Some (JObj [(''url'', JStr ''not a url'')]))) =
       [EnsureTab,
        Run 0 (TabNavigate ''not a url'')
          \<lparr>status = ''Navigated to not a url'', captureSnapshot = True,
           noClearFileChooser = None\<rparr>]"
proof -
  have t: "throws example_env EnsureTab = None" and c: "current example_env = Some 0"
    by (simp_all add: example_env_def)
  from navigate_validation [of True example_env "[(''url'', JNum 5)]"]
    navigate_validation [of True example_env "[]"]
    navigate_validation [of True example_env "[(''url'', JStr ''not a url'')]"] t c
  show ?thesis
    by simp
qed



section \<open>\<open>browser_go_back\<close> and \<open>browser_go_forward\<close>\<close>

text \<open>
  C6: whatever \<open>params\<close> is, both handlers ask \<open>currentTab\<close> for the tab (never
  \<open>ensureTab\<close>) and fail with \<open>NoActiveTab\<close> when the context has none; with a tab \<open>t\<close> they
  make one more call, \<open>runAndWait\<close> (never \<open>run\<close>) around \<open>page.goBack\<close> or \<open>page.goForward\<close>,
  with the fixed status \<open>Navigated back\<close> or \<open>Navigated forward\<close>, and that status is what
  a successful result carries: nothing of the page's history enters it.
\<close>

theorem go_back_and_forward:
  "(current e = None \<longrightarrow>
      goBack cs e params = (Inl NoActiveTab, [CurrentTab])
      \<and> goForward cs e params = (Inl NoActiveTab, [CurrentTab]))
   \<and> (\<forall>t. current e = Some t \<longrightarrow>
        snd (goBack cs e params) =
          [CurrentTab,
           RunAndWait t PageGoBack
             \<lparr>status = ''Navigated back'', captureSnapshot = cs, noClearFileChooser = None\<rparr>]
        \<and> snd (goForward cs e params) =
          [CurrentTab,
           RunAndWait t PageGoForward
             \<lparr>status = ''Navigated forward'', captureSnapshot = cs, noClearFileChooser = None\<rparr>])
   \<and> (\<forall>resp. fst (goBack cs e params) = Inr resp \<longrightarrow>
        resp = Outcome ''Navigated back'' (if cs then page_snapshot e else None))
   \<and> (\<forall>resp. fst (goForward cs e params) = Inr resp \<longrightarrow>
        resp = Outcome ''Navigated forward'' (if cs then page_snapshot e else None))
   \<and> (\<forall>t cb opts. Run t cb opts \<notin> set (snd (goBack cs e params))
        \<and> Run t cb opts \<notin> set (snd (goForward cs e params)))
   \<and> EnsureTab \<notin> set (snd (goBack cs e params))
   \<and> EnsureTab \<notin> set (snd (goForward cs e params))"
  by (auto simp add: goBack_def goForward_def handler_defs split: option.splits)

theorem go_back_and_forward_witness:
  "goBack True (example_env\<lparr>current := None\<rparr>) None = (Inl NoActiveTab, [CurrentTab])
   \<and> goForward True (example_env\<lparr>current := None\<rparr>) None = (Inl NoActiveTab, [CurrentTab])
   \<and> current example_env = Some 0
   \<and> fst (goBack True example_env None) = Inr (Outcome ''Navigated back'' (Some ''- document''))
   \<and> fst (goForward True example_env None) = Inr (Outcome ''Navigated forward'' (Some ''- document''))
   \<and> snd (goBack True example_env None) =
        [CurrentTab,
         RunAndWait 0 PageGoBack
           \<lparr>status = ''Navigated back'', captureSnapshot = True, noClearFileChooser = None\<rparr>]
   \<and> snd (goForward True example_env None) =
        [CurrentTab,
         RunAndWait 0 PageGoForward
           \<lparr>status = ''Navigated forward'', captureSnapshot = True, noClearFileChooser = None\<rparr>]"
proof -
  have n: "current (example_env\<lparr>current := None\<rparr>) = None"
    by simp
  have c: "current example_env = Some 0"
    by (simp add: example_env_def)
  have b: "fst (goBack True example_env None) = Inr (Outcome ''Navigated back'' (Some ''- document''))"
    by (simp add: goBack_def handler_defs example_env_def)
  have f: "fst (goForward True example_env None) = Inr (Outcome ''Navigated forward'' (Some ''- document''))"
    by (simp add: goForward_def handler_defs example_env_def)
  from go_back_and_forward [of "example_env\<lparr>current := None\<rparr>" True None]
    go_back_and_forward [of example_env True None] n c b f
  show ?thesis
    by simp
qed

section \<open>\<open>browser_press_key\<close>\<close>

text \<open>
  C4: \<open>browser_press_key\<close> invoked with the empty record \<open>{}\<close> fails with \<open>InvalidParams\<close>
  (the issue is at \<open>key\<close>) and makes no call at all, in every environment: the tab is not
  asked for and no key is pressed.
\<close>

theorem pressKey_empty_params:
  "pressKey cs e (Some (JObj [])) = (Inl (InvalidParams [Invalid_type [Key ''key'']]), [])"
  by (simp add: pressKey_def pressKeySchema_def parse_def z_object1_def property_def
      z_string_def bind_def lift_def)

section \<open>\<open>browser_save_as_pdf\<close>\<close>

text \<open>
  C7: let \<open>width\<close> be absent or a number and \<open>fileName\<close> absent or a string, let \<open>W\<close> be the
  width, or 1400 when it is absent, and \<open>N\<close> the file name, or \<open>page-\<close> followed by the ISO
  timestamp when it is absent. With a current tab \<open>t\<close> whose page accepts the resize and
  the measurement, the handler calls \<open>page.pdf\<close> with the width \<open>Wpx\<close>, the height that is
  the measured scroll height (the larger of the body's and the document element's, at
  the viewport \<open>W\<close> by 800) followed by \<open>px\<close>, and the path \<open>path.join\<close> of the fixed directory
  and the sanitized \<open>N.pdf\<close>.
\<close>

theorem pdf_export:
  assumes "map_of kvs ''width'' = map_option JNum w"
    and "map_of kvs ''fileName'' = map_option JStr f"
    and "W = (case w of None \<Rightarrow> 1400 | Some x \<Rightarrow> x)"
    and "N = (case f of None \<Rightarrow> ''page-'' @ toISOString e | Some n \<Rightarrow> n)"
    and "current e = Some t"
    and "throws e (SetViewportSize t W 800) = None"
    and "throws e (EvaluateScrollHeight t) = None"
  shows "snd (pdf e (Some (JObj kvs))) =
     [CurrentTab,
      SetViewportSize t W 800,
      EvaluateScrollHeight t,
      PagePdf t
        \<lparr>path = path_join e ''C:/Users/User/mcp_projects/shared'' (sanitizeForFilePath e (N @ ''.pdf'')),
         printBackground = True,
         width = numberToString e W @ ''px'',
         height = numberToString e
                    (max (body_scrollHeight e W 800) (documentElement_scrollHeight e W 800))
                  @ ''px''\<rparr>]"
proof -
  from assms(1,2) have "parse pdfSchema (Some (JObj kvs)) = Inr (w, f)"
    by (rule parse_pdfSchema)
  moreover have "nullish w 1400 = W" and "nullish f (defaultFileName e) = N"
    using assms(3,4) by (simp_all add: nullish_def defaultFileName_def split: option.splits)
  ultimately show ?thesis
    using assms(5-7)
    by (simp add: pdf_def handler_defs saveDir_def scrollHeight_def Let_def split: option.splits)
qed

text \<open>
  With no field at all the width is \<open>1400px\<close> and the name comes from the clock; with
  \<open>width = 800\<close> the width argument is \<open>800px\<close> and the height is the one measured at that
  width.
\<close>

theorem pdf_export_witness:
  "snd (pdf example_env (Some (JObj []))) =
     [CurrentTab,
      SetViewportSize 0 1400 800,
      EvaluateScrollHeight 0,
      PagePdf 0
        \<lparr>path = ''C:/Users/User/mcp_projects/shared/page-2025-01-01T00-00-00.000Z.pdf'',
         printBackground = True, width = ''1400px'', height = ''2000px''\<rparr>]
   \<and> snd (pdf example_env (Some (JObj [(''width'', JNum 800), (''fileName'', JStr ''a/b'')]))) =
     [CurrentTab,
      SetViewportSize 0 800 800,
      EvaluateScrollHeight 0,
      PagePdf 0
        \<lparr>path = ''C:/Users/User/mcp_projects/shared/a-b.pdf'',
         printBackground = True, width = ''800px'', height = ''3500px''\<rparr>]"
proof -
  have c: "current example_env = Some 0"
    and t: "throws example_env = (\<lambda>_. None)"
    and i: "toISOString example_env = ''2025-01-01T00:00:00.000Z''"
    by (simp_all add: example_env_def)
  have d: "snd (pdf example_env (Some (JObj []))) =
     [CurrentTab,
      SetViewportSize 0 1400 800,
      EvaluateScrollHeight 0,
      PagePdf 0
        \<lparr>path = path_join example_env ''C:/Users/User/mcp_projects/shared''
                 (sanitizeForFilePath example_env (''page-2025-01-01T00:00:00.000Z'' @ ''.pdf'')),
         printBackground = True,
         width = numberToString example_env 1400 @ ''px'',
         height = numberToString example_env
                    (max (body_scrollHeight example_env 1400 800)
                         (documentElement_scrollHeight example_env 1400 800))
                  @ ''px''\<rparr>]"
    using pdf_export [of "[]" None None 1400 "''page-2025-01-01T00:00:00.000Z''" example_env 0]
    by (simp add: c t i)
  have g: "snd (pdf example_env (Some (JObj [(''width'', JNum 800), (''fileName'', JStr ''a/b'')]))) =
     [CurrentTab,
      SetViewportSize 0 800 800,
      EvaluateScrollHeight 0,
      PagePdf 0
        \<lparr>path = path_join example_env ''C:/Users/User/mcp_projects/shared''
                 (sanitizeForFilePath example_env (''a/b'' @ ''.pdf'')),
         printBackground = True,
         width = numberToString example_env 800 @ ''px'',
         height = numberToString example_env
                    (max (body_scrollHeight example_env 800 800)
                         (documentElement_scrollHeight example_env 800 800))
                  @ ''px''\<rparr>]"
    using pdf_export [of "[(''width'', JNum 800), (''fileName'', JStr ''a/b'')]"
        "Some 800" "Some ''a/b''" 800 "''a/b''" example_env 0]
    by (simp add: c t)
  from d g show ?thesis
    by (simp add: example_env_def show_int_def digit_def)
qed

text \<open>
  C10: every invocation with valid parameters (\<open>width\<close> absent or a number, \<open>fileName\<close> absent
  or a string) and a current tab \<open>t\<close> resizes the viewport of \<open>t\<close> right after \<open>currentTab\<close>, to
  the width given (1400 when absent) and the height 800, and measures the scroll height
  next when the resize is accepted. Whatever the parameters, every \<open>setViewportSize\<close> of
  the handler has the height 800, and its width is the \<open>width\<close> field when that is a number
  and 1400 otherwise; the scroll height is measured only after that resize, and the height
  given to \<open>page.pdf\<close> is the one measured at the viewport height 800.
\<close>

theorem pdf_viewport_height:
  "(\<forall>w f t. map_of kvs ''width'' = map_option JNum w
        \<and> map_of kvs ''fileName'' = map_option JStr f \<and> current e = Some t \<longrightarrow>
      (\<exists>rest. snd (pdf e (Some (JObj kvs))) =
           CurrentTab # SetViewportSize t (case w of None \<Rightarrow> 1400 | Some x \<Rightarrow> x) 800 # rest
         \<and> (throws e (SetViewportSize t (case w of None \<Rightarrow> 1400 | Some x \<Rightarrow> x) 800) = None \<longrightarrow>
              (\<exists>rest'. rest = EvaluateScrollHeight t # rest'))))
   \<and> (\<forall>t w h. SetViewportSize t w h \<in> set (snd (pdf e params)) \<longrightarrow> h = 800)
   \<and> (\<forall>t w h. SetViewportSize t w h \<in> set (snd (pdf e (Some (JObj kvs)))) \<longrightarrow>
        w = (case map_of kvs ''width'' of Some (JNum x) \<Rightarrow> x | _ \<Rightarrow> 1400))
   \<and> (\<forall>t. EvaluateScrollHeight t \<in> set (snd (pdf e params)) \<longrightarrow>
        (\<exists>w rest. snd (pdf e params) =
           CurrentTab # SetViewportSize t w 800 # EvaluateScrollHeight t # rest))
   \<and> (\<forall>t opts. PagePdf t opts \<in> set (snd (pdf e params)) \<longrightarrow>
        (\<exists>w. snd (pdf e params) =
           [CurrentTab, SetViewportSize t w 800, EvaluateScrollHeight t, PagePdf t opts]
         \<and> height opts = numberToString e (scrollHeight e w 800) @ ''px''))"
proof -
  have rs: "\<exists>rest. snd (pdf e (Some (JObj kvs))) =
           CurrentTab # SetViewportSize t (case w of None \<Rightarrow> 1400 | Some x \<Rightarrow> x) 800 # rest
         \<and> (throws e (SetViewportSize t (case w of None \<Rightarrow> 1400 | Some x \<Rightarrow> x) 800) = None \<longrightarrow>
              (\<exists>rest'. rest = EvaluateScrollHeight t # rest'))"
    if "map_of kvs ''width'' = map_option JNum w \<and> map_of kvs ''fileName'' = map_option JStr f
        \<and> current e = Some t" for w f t
    using that by (intro pdf_resizes) simp_all
  have h800: "h = 800" if "SetViewportSize t w h \<in> set (snd (pdf e params))" for t w h
    using pdf_trace [of e params] that by (elim disjE exE conjE) auto
  have wd: "w = (case map_of kvs ''width'' of Some (JNum x) \<Rightarrow> x | _ \<Rightarrow> 1400)"
    if "SetViewportSize t w h \<in> set (snd (pdf e (Some (JObj kvs))))" for t w h
    using pdf_trace [of e "Some (JObj kvs)"] that
    by (elim disjE exE conjE) (auto dest: parse_pdfSchema_width)
  have ev: "\<exists>w rest. snd (pdf e params) =
      CurrentTab # SetViewportSize t w 800 # EvaluateScrollHeight t # rest"
    if "EvaluateScrollHeight t \<in> set (snd (pdf e params))" for t
    using pdf_trace [of e params] that by (elim disjE exE conjE) auto
  have ex: "\<exists>w. snd (pdf e params) =
           [CurrentTab, SetViewportSize t w 800, EvaluateScrollHeight t, PagePdf t opts]
         \<and> height opts = numberToString e (scrollHeight e w 800) @ ''px''"
    if "PagePdf t opts \<in> set (snd (pdf e params))" for t opts
    using pdf_trace [of e params] that by (elim disjE exE conjE) auto
  show ?thesis
  proof (intro conjI allI impI)
    fix w f t
    assume "map_of kvs ''width'' = map_option JNum w
        \<and> map_of kvs ''fileName'' = map_option JStr f \<and> current e = Some t"
    then show "\<exists>rest. snd (pdf e (Some (JObj kvs))) =
           CurrentTab # SetViewportSize t (case w of None \<Rightarrow> 1400 | Some x \<Rightarrow> x) 800 # rest
         \<and> (throws e (SetViewportSize t (case w of None \<Rightarrow> 1400 | Some x \<Rightarrow> x) 800) = None \<longrightarrow>
              (\<exists>rest'. rest = EvaluateScrollHeight t # rest'))"
      by (rule rs)
  next
    fix t w h
    assume "SetViewportSize t w h \<in> set (snd (pdf e params))"
    then show "h = 800"
      by (rule h800)
  next
    fix t w h
    assume "SetViewportSize t w h \<in> set (snd (pdf e (Some (JObj kvs))))"
    then show "w = (case map_of kvs ''width'' of Some (JNum x) \<Rightarrow> x | _ \<Rightarrow> 1400)"
      by (rule wd)
  next
    fix t
    assume "EvaluateScrollHeight t \<in> set (snd (pdf e params))"
    then show "\<exists>w rest. snd (pdf e params) =
      CurrentTab # SetViewportSize t w 800 # EvaluateScrollHeight t # rest"
      by (rule ev)
  next
    fix t opts
    assume "PagePdf t opts \<in> set (snd (pdf e params))"
    then show "\<exists>w. snd (pdf e params) =
           [CurrentTab, SetViewportSize t w 800, EvaluateScrollHeight t, PagePdf t opts]
         \<and> height opts = numberToString e (scrollHeight e w 800) @ ''px''"
      by (rule ex)
  qed
qed

theorem pdf_viewport_height_witness:
  "map_of [(''width'', JNum 1000)] ''width'' = map_option JNum (Some 1000)
   \<and> map_of [(''width'', JNum 1000)] ''fileName'' = map_option JStr None
   \<and> current example_env = Some 0
   \<and> throws example_env (SetViewportSize 0 1000 800) = None
   \<and> (\<exists>rest. snd (pdf example_env (Some (JObj [(''width'', JNum 1000)]))) =
        CurrentTab # SetViewportSize 0 1000 800 # EvaluateScrollHeight 0 # rest)
   \<and> snd (pdf example_env (Some (JObj [])))
       ! 1 = SetViewportSize 0 1400 800
   \<and> snd (pdf example_env (Some (JObj [(''width'', JNum 1000)]))) =
     [CurrentTab,
      SetViewportSize 0 1000 800,
      EvaluateScrollHeight 0,
      PagePdf 0
        \<lparr>path = ''C:/Users/User/mcp_projects/shared/page-2025-01-01T00-00-00.000Z.pdf'',
         printBackground = True, width = ''1000px'', height = ''2800px''\<rparr>]
   \<and> scrollHeight example_env 1000 800 = 2800"
proof -
  let ?kvs = "[(''width'', JNum 1000)]"
  let ?p = "Some (JObj ?kvs)"
  let ?o = "\<lparr>path = ''C:/Users/User/mcp_projects/shared/page-2025-01-01T00-00-00.000Z.pdf'',
         printBackground = True, width = ''1000px'', height = ''2800px''\<rparr>"
  note inst = pdf_viewport_height [of ?kvs example_env ?p]
  note inst0 = pdf_viewport_height [of "[]" example_env "Some (JObj [])"]
  have hw: "map_of ?kvs ''width'' = map_option JNum (Some 1000)"
    and hf: "map_of ?kvs ''fileName'' = map_option JStr None"
    by simp_all
  have c: "current example_env = Some 0"
    and th: "throws example_env (SetViewportSize 0 1000 800) = None"
    by (simp_all add: example_env_def)
  have first: "\<forall>w f t. map_of ?kvs ''width'' = map_option JNum w
        \<and> map_of ?kvs ''fileName'' = map_option JStr f \<and> current example_env = Some t \<longrightarrow>
      (\<exists>rest. snd (pdf example_env ?p) =
           CurrentTab # SetViewportSize t (case w of None \<Rightarrow> 1400 | Some x \<Rightarrow> x) 800 # rest
         \<and> (throws example_env (SetViewportSize t (case w of None \<Rightarrow> 1400 | Some x \<Rightarrow> x) 800) = None \<longrightarrow>
              (\<exists>rest'. rest = EvaluateScrollHeight t # rest')))"
    using inst by (elim conjE)
  from first hw hf c
  have "\<exists>rest. snd (pdf example_env ?p) =
           CurrentTab # SetViewportSize 0 (case Some 1000 of None \<Rightarrow> 1400 | Some x \<Rightarrow> x) 800 # rest
         \<and> (throws example_env (SetViewportSize 0 (case Some 1000 of None \<Rightarrow> 1400 | Some x \<Rightarrow> x) 800) = None \<longrightarrow>
              (\<exists>rest'. rest = EvaluateScrollHeight 0 # rest'))"
    by (elim allE [of _ "Some 1000"] allE [of _ None] allE [of _ 0] impE) (intro conjI)
  with th have resize: "\<exists>rest. snd (pdf example_env ?p) =
        CurrentTab # SetViewportSize 0 1000 800 # EvaluateScrollHeight 0 # rest"
    by auto
  have first0: "\<forall>w f t. map_of [] ''width'' = map_option JNum w
        \<and> map_of [] ''fileName'' = map_option JStr f \<and> current example_env = Some t \<longrightarrow>
      (\<exists>rest. snd (pdf example_env (Some (JObj []))) =
           CurrentTab # SetViewportSize t (case w of None \<Rightarrow> 1400 | Some x \<Rightarrow> x) 800 # rest
         \<and> (throws example_env (SetViewportSize t (case w of None \<Rightarrow> 1400 | Some x \<Rightarrow> x) 800) = None \<longrightarrow>
              (\<exists>rest'. rest = EvaluateScrollHeight t # rest')))"
    using inst0 by (elim conjE)
  have "map_of [] ''width'' = map_option JNum None \<and> map_of [] ''fileName'' = map_option JStr None
      \<and> current example_env = Some 0"
    using c by simp
  with first0 have "\<exists>rest. snd (pdf example_env (Some (JObj []))) =
           CurrentTab # SetViewportSize 0 (case None of None \<Rightarrow> 1400 | Some x \<Rightarrow> x) 800 # rest
         \<and> (throws example_env (SetViewportSize 0 (case None of None \<Rightarrow> 1400 | Some x \<Rightarrow> x) 800) = None \<longrightarrow>
              (\<exists>rest'. rest = EvaluateScrollHeight 0 # rest'))"
    by (elim allE [of _ "None"] allE [of _ 0] impE)
  then have default: "snd (pdf example_env (Some (JObj []))) ! 1 = SetViewportSize 0 1400 800"
    by auto
  have p: "parse pdfSchema ?p = Inr (Some 1000, None)"
    by (rule parse_pdfSchema) simp_all
  have m: "PagePdf 0 ?o \<in> set (snd (pdf example_env ?p))"
    by (simp add: pdf_def p handler_defs nullish_def defaultFileName_def saveDir_def
        scrollHeight_def example_env_def show_int_def digit_def)
  have s: "scrollHeight example_env 1000 800 = 2800"
    by (simp add: scrollHeight_def example_env_def)
  have "\<forall>t opts. PagePdf t opts \<in> set (snd (pdf example_env ?p)) \<longrightarrow>
        (\<exists>w. snd (pdf example_env ?p) =
           [CurrentTab, SetViewportSize t w 800, EvaluateScrollHeight t, PagePdf t opts]
         \<and> height opts = numberToString example_env (scrollHeight example_env w 800) @ ''px'')"
    using inst by (elim conjE)
  with m obtain w where tr: "snd (pdf example_env ?p) =
      [CurrentTab, SetViewportSize 0 w 800, EvaluateScrollHeight 0, PagePdf 0 ?o]"
    by (elim allE impE exE conjE)
  with resize have "w = 1000"
    by auto
  with tr hw hf c th resize default s show ?thesis
    by simp
qed

section \<open>\<open>browser_choose_file\<close>\<close>




end
